theory Spec2Isabelle
  imports Main
begin

section \<open>The Supabase storage adapter of the Gantt board editor\<close>

text \<open>
  A shallow embedding of \<^verbatim>\<open>src/supabase-storage.js\<close>. The module keeps five variables
  (\<^verbatim>\<open>supabase\<close>, \<^verbatim>\<open>initConfig\<close>, \<^verbatim>\<open>projectsListCache\<close>, \<^verbatim>\<open>boardDataCache\<close>,
  \<^verbatim>\<open>authCallback\<close>); the model threads them through every function as a record.

  Conventions of the embedding:
  \<^item> A JavaScript value stored in a board document is a \<open>jsval\<close>: a primitive, or a
    reference into an explicit heap of arrays and objects. Arrays and objects are
    allocated at the end of the heap, so a fresh address is the heap's length.
  \<^item> JSON text travelling to or from the backend is a \<open>json\<close> tree.
  \<^item> Project identifiers and names are strings; the only falsy string is the empty one,
    and it also stands for an absent (\<^verbatim>\<open>undefined\<close> or \<^verbatim>\<open>null\<close>) identifier or name.
  \<^item> \<^verbatim>\<open>boardDataCache\<close> is a plain object used as a dictionary. The model is a map from
    identifiers to documents: it holds the object's own properties. A lookup in the code
    also finds what a plain object inherits from \<^verbatim>\<open>Object.prototype\<close> (\<^verbatim>\<open>constructor\<close>,
    \<^verbatim>\<open>toString\<close>, \<^verbatim>\<open>__proto__\<close>, ...), and resetting the cache or deleting a key does not
    remove that. \<open>reserved_names\<close> lists these names; at them a lookup of the model is
    not the lookup of the code. Identifiers are the UUIDs the backend issues for
    \<^verbatim>\<open>boards.id\<close>, none of which is such a name, and the statements on the reads after a
    load (C1), a sign-out (C3) and a delete (C9) are made for identifiers outside
    \<open>reserved_names\<close>.
  \<^item> An \<^verbatim>\<open>async\<close> function runs to completion; what the backend answers at each
    \<^verbatim>\<open>await\<close> is an argument of the function. Interleavings of several pending calls
    are not represented.
  \<^item> Everything the module does to the outside world (requests, console warnings, calls
    of the registered session callback) is appended to a trace. A callback entry records
    the two caches as the callback finds them when it is called.
\<close>

subsection \<open>Values, heap and JSON\<close>

datatype jsval = Undefined | Null | Bool bool | Num int | Str string | Ref nat

datatype hobj = Arr "jsval list" | Obj "(string \<times> jsval) list"

type_synonym heap = "hobj list"

datatype json =
  JNull | JBool bool | JNum int | JStr string | JArr "json list" | JObj "(string \<times> json) list"

datatype error = TypeError string | SyntaxError string

text \<open>JavaScript truthiness, as used by \<^verbatim>\<open>x || d\<close> and \<^verbatim>\<open>!x\<close>.\<close>

fun truthy :: "jsval \<Rightarrow> bool" where
  "truthy Undefined = False"
| "truthy Null = False"
| "truthy (Bool b) = b"
| "truthy (Num n) = (n \<noteq> 0)"
| "truthy (Str s) = (s \<noteq> [])"
| "truthy (Ref a) = True"

text \<open>Evaluating an array or object literal allocates a new heap object.\<close>

definition alloc :: "heap \<Rightarrow> hobj \<Rightarrow> heap \<times> jsval" where
  "alloc h ob = (h @ [ob], Ref (length h))"

text \<open>\<^verbatim>\<open>v || literal\<close>: the literal is only evaluated when \<open>v\<close> is falsy.\<close>

definition or_new :: "heap \<Rightarrow> jsval \<Rightarrow> hobj \<Rightarrow> heap \<times> jsval" where
  "or_new h v ob = (if truthy v then (h, v) else alloc h ob)"

text \<open>
  \<^verbatim>\<open>JSON.parse\<close> of a JSON text: every array and object of the text becomes a new heap
  object.
\<close>

fun materialize :: "heap \<Rightarrow> json \<Rightarrow> heap \<times> jsval"
  and materialize_list :: "heap \<Rightarrow> json list \<Rightarrow> heap \<times> jsval list"
  and materialize_props ::
    "heap \<Rightarrow> (string \<times> json) list \<Rightarrow> heap \<times> (string \<times> jsval) list" where
  "materialize h JNull = (h, Null)"
| "materialize h (JBool b) = (h, Bool b)"
| "materialize h (JNum n) = (h, Num n)"
| "materialize h (JStr s) = (h, Str s)"
| "materialize h (JArr ts) =
     (case materialize_list h ts of (h1, vs) \<Rightarrow> (h1 @ [Arr vs], Ref (length h1)))"
| "materialize h (JObj ps) =
     (case materialize_props h ps of (h1, qs) \<Rightarrow> (h1 @ [Obj qs], Ref (length h1)))"
| "materialize_list h [] = (h, [])"
| "materialize_list h (t # ts) =
     (case materialize h t of (h1, v) \<Rightarrow>
        (case materialize_list h1 ts of (h2, vs) \<Rightarrow> (h2, v # vs)))"
| "materialize_props h [] = (h, [])"
| "materialize_props h ((k, t) # ps) =
     (case materialize h t of (h1, v) \<Rightarrow>
        (case materialize_props h1 ps of (h2, qs) \<Rightarrow> (h2, (k, v) # qs)))"

text \<open>
  \<^verbatim>\<open>JSON.stringify\<close>, with the nesting depth bounded by the first argument. An
  \<^verbatim>\<open>undefined\<close> array element is written as \<^verbatim>\<open>null\<close>, an \<^verbatim>\<open>undefined\<close> property is left
  out, and \<^verbatim>\<open>undefined\<close> itself has no JSON text (\<open>Inr None\<close>).
\<close>

fun serialize :: "nat \<Rightarrow> heap \<Rightarrow> jsval \<Rightarrow> error + json option"
  and serialize_list :: "nat \<Rightarrow> heap \<Rightarrow> jsval list \<Rightarrow> error + json list"
  and serialize_props ::
    "nat \<Rightarrow> heap \<Rightarrow> (string \<times> jsval) list \<Rightarrow> error + (string \<times> json) list" where
  "serialize k h Undefined = Inr None"
| "serialize k h Null = Inr (Some JNull)"
| "serialize k h (Bool b) = Inr (Some (JBool b))"
| "serialize k h (Num n) = Inr (Some (JNum n))"
| "serialize k h (Str s) = Inr (Some (JStr s))"
| "serialize 0 h (Ref a) = Inl (TypeError ''Converting circular structure to JSON'')"
| "serialize (Suc k) h (Ref a) =
     (if a < length h then
        (case h ! a of
           Arr vs \<Rightarrow>
             (case serialize_list k h vs of
                Inl e \<Rightarrow> Inl e
              | Inr ts \<Rightarrow> Inr (Some (JArr ts)))
         | Obj ps \<Rightarrow>
             (case serialize_props k h ps of
                Inl e \<Rightarrow> Inl e
              | Inr qs \<Rightarrow> Inr (Some (JObj qs))))
      else Inl (TypeError ''not an object of this heap''))"
| "serialize_list k h [] = Inr []"
| "serialize_list k h (v # vs) =
     (case serialize k h v of
        Inl e \<Rightarrow> Inl e
      | Inr t \<Rightarrow>
          (case serialize_list k h vs of
             Inl e \<Rightarrow> Inl e
           | Inr ts \<Rightarrow> Inr ((case t of None \<Rightarrow> JNull | Some j \<Rightarrow> j) # ts)))"
| "serialize_props k h [] = Inr []"
| "serialize_props k h ((key, v) # ps) =
     (case serialize k h v of
        Inl e \<Rightarrow> Inl e
      | Inr t \<Rightarrow>
          (case serialize_props k h ps of
             Inl e \<Rightarrow> Inl e
           | Inr qs \<Rightarrow> Inr ((case t of None \<Rightarrow> [] | Some j \<Rightarrow> [(key, j)]) @ qs)))"

text \<open>
  A chain of more nested objects than the heap holds passes through one object twice, so
  with the heap's length as the bound \<open>serialize\<close> reaches the bound only on a circular
  structure, where \<^verbatim>\<open>JSON.stringify\<close> throws a \<^verbatim>\<open>TypeError\<close>. A reference that is not an
  address of the heap does not arise in a run of the program; \<open>serialize\<close> fails on it.
\<close>

definition JSON_stringify :: "heap \<Rightarrow> jsval \<Rightarrow> error + json option" where
  "JSON_stringify h v = serialize (length h) h v"

definition JSON_parse :: "heap \<Rightarrow> json option \<Rightarrow> error + heap \<times> jsval" where
  "JSON_parse h t =
     (case t of
        None \<Rightarrow> Inl (SyntaxError ''undefined is not valid JSON'')
      | Some j \<Rightarrow> Inr (materialize h j))"

text \<open>\<^verbatim>\<open>JSON.parse(JSON.stringify(v))\<close>\<close>

definition json_clone :: "heap \<Rightarrow> jsval \<Rightarrow> error + heap \<times> jsval" where
  "json_clone h v =
     (case JSON_stringify h v of
        Inl e \<Rightarrow> Inl e
      | Inr t \<Rightarrow> JSON_parse h t)"

subsection \<open>Module state\<close>

datatype client = Client string string

datatype session = Session string

fun user_id :: "session \<Rightarrow> string" where
  "user_id (Session u) = u"

record project =
  proj_id :: string
  proj_name :: string
  createdAt :: int

record doc =
  tasks :: jsval
  settings :: jsval
  view :: jsval
  custom_palettes :: jsval

text \<open>
  What the backend answers to a request: a result, or an error with its code. A
  \<^verbatim>\<open>.single()\<close> select answers with a row or with an error, never with neither.
\<close>

datatype 'a reply = Reply 'a | Failure string

record board_row =
  row_id :: string
  row_name :: string
  row_created_at :: int

record row_data =
  data_tasks :: json
  data_settings :: json
  data_view :: json
  data_custom_palettes :: json

datatype event =
    GetSession
  | SelectBoards string
  | SelectBoardData string
  | InsertBoard string string
  | InsertBoardData string
  | UpsertBoardData string doc
  | DeleteBoard string
  | AuthSignOut
  | Warn string
  | Callback "session option" "project list" "string \<rightharpoonup> doc"

record state =
  supabase :: "client option"
  projectsListCache :: "project list"
  boardDataCache :: "string \<rightharpoonup> doc"
  authCallback :: bool
  heap :: heap
  trace :: "event list"

definition emit :: "state \<Rightarrow> event \<Rightarrow> state" where
  "emit st e = st\<lparr>trace := trace st @ [e]\<rparr>"

definition isCloudEnabled :: "state \<Rightarrow> bool" where
  "isCloudEnabled st = (supabase st \<noteq> None)"

text \<open>The object literal \<^verbatim>\<open>{ tasks: [], settings: {}, view: "default", custom_palettes: [] }\<close>\<close>

definition default_row :: "heap \<Rightarrow> heap \<times> doc" where
  "default_row h =
     (case alloc h (Arr []) of (h1, t) \<Rightarrow>
      case alloc h1 (Obj []) of (h2, s) \<Rightarrow>
      case alloc h2 (Arr []) of (h3, c) \<Rightarrow>
        (h3, \<lparr>tasks = t, settings = s, view = Str ''default'', custom_palettes = c\<rparr>))"

subsection \<open>Board content cache\<close>

text \<open>The response body of the \<^verbatim>\<open>board_data\<close> select, parsed into heap values.\<close>

definition parse_row :: "heap \<Rightarrow> row_data \<Rightarrow> heap \<times> doc" where
  "parse_row h d =
     (case materialize h (data_tasks d) of (h1, t) \<Rightarrow>
      case materialize h1 (data_settings d) of (h2, s) \<Rightarrow>
      case materialize h2 (data_view d) of (h3, v) \<Rightarrow>
      case materialize h3 (data_custom_palettes d) of (h4, c) \<Rightarrow>
        (h4, \<lparr>tasks = t, settings = s, view = v, custom_palettes = c\<rparr>))"

definition ensureBoardDataLoaded :: "state \<Rightarrow> string \<Rightarrow> row_data reply \<Rightarrow> state" where
  "ensureBoardDataLoaded st projectId r =
     (if supabase st = None \<or> projectId = [] then st
      else if boardDataCache st projectId \<noteq> None then st
      else
        let st1 = emit st (SelectBoardData projectId) in
        (case r of
           Failure code \<Rightarrow>
             let st2 = (if code \<noteq> ''PGRST116'' then emit st1 (Warn ''Supabase board_data:'')
                        else st1)
             in (case default_row (heap st2) of (h, row) \<Rightarrow>
                   st2\<lparr>heap := h, boardDataCache := (boardDataCache st2)(projectId \<mapsto> row)\<rparr>)
         | Reply d \<Rightarrow>
             (case parse_row (heap st1) d of (h0, dat) \<Rightarrow>
              case or_new h0 (tasks dat) (Arr []) of (h1, t) \<Rightarrow>
              case or_new h1 (settings dat) (Obj []) of (h2, s) \<Rightarrow>
              case or_new h2 (custom_palettes dat) (Arr []) of (h3, c) \<Rightarrow>
                st1\<lparr>heap := h3,
                    boardDataCache := (boardDataCache st1)(projectId \<mapsto>
                      \<lparr>tasks = t, settings = s,
                       view = (if truthy (view dat) then view dat else Str ''default''),
                       custom_palettes = c\<rparr>)\<rparr>)))"

definition loadProjectsList :: "state \<Rightarrow> project list option" where
  "loadProjectsList st = (if \<not> isCloudEnabled st then None else Some (projectsListCache st))"

definition loadTasks :: "state \<Rightarrow> string \<Rightarrow> jsval" where
  "loadTasks st projectId =
     (if \<not> isCloudEnabled st \<or> projectId = [] then Null
      else case boardDataCache st projectId of None \<Rightarrow> Null | Some row \<Rightarrow> tasks row)"

definition loadSettings :: "state \<Rightarrow> string \<Rightarrow> jsval" where
  "loadSettings st projectId =
     (if \<not> isCloudEnabled st \<or> projectId = [] then Null
      else case boardDataCache st projectId of None \<Rightarrow> Null | Some row \<Rightarrow> settings row)"

definition loadView :: "state \<Rightarrow> string \<Rightarrow> jsval" where
  "loadView st projectId =
     (if \<not> isCloudEnabled st \<or> projectId = [] then Null
      else case boardDataCache st projectId of None \<Rightarrow> Null | Some row \<Rightarrow> view row)"

definition loadCustomPalettes :: "state \<Rightarrow> string \<Rightarrow> jsval" where
  "loadCustomPalettes st projectId =
     (if \<not> isCloudEnabled st \<or> projectId = [] then Null
      else case boardDataCache st projectId of
             None \<Rightarrow> Null
           | Some row \<Rightarrow> custom_palettes row)"

text \<open>
  \<^verbatim>\<open>ensureBoardDataRow\<close> returns the cached document object itself; the assignment to one
  of its fields that follows in each setter is the update of the cache entry.
\<close>

definition ensureBoardDataRow :: "state \<Rightarrow> string \<Rightarrow> state \<times> doc" where
  "ensureBoardDataRow st projectId =
     (case boardDataCache st projectId of
        Some row \<Rightarrow> (st, row)
      | None \<Rightarrow>
          (case default_row (heap st) of (h, row) \<Rightarrow>
             (st\<lparr>heap := h, boardDataCache := (boardDataCache st)(projectId \<mapsto> row)\<rparr>, row)))"

definition persistBoardData :: "state \<Rightarrow> string \<Rightarrow> state" where
  "persistBoardData st projectId =
     (if supabase st = None \<or> projectId = [] then st
      else case boardDataCache st projectId of
             None \<Rightarrow> st
           | Some row \<Rightarrow> emit st (UpsertBoardData projectId row))"

definition saveTasks :: "state \<Rightarrow> string \<Rightarrow> jsval \<Rightarrow> state" where
  "saveTasks st projectId dat =
     (if \<not> isCloudEnabled st \<or> projectId = [] then st
      else case ensureBoardDataRow st projectId of (st1, row) \<Rightarrow>
        persistBoardData
          (st1\<lparr>boardDataCache := (boardDataCache st1)(projectId \<mapsto> row\<lparr>tasks := dat\<rparr>)\<rparr>)
          projectId)"

definition saveSettings :: "state \<Rightarrow> string \<Rightarrow> jsval \<Rightarrow> state" where
  "saveSettings st projectId dat =
     (if \<not> isCloudEnabled st \<or> projectId = [] then st
      else case ensureBoardDataRow st projectId of (st1, row) \<Rightarrow>
        persistBoardData
          (st1\<lparr>boardDataCache := (boardDataCache st1)(projectId \<mapsto> row\<lparr>settings := dat\<rparr>)\<rparr>)
          projectId)"

definition saveView :: "state \<Rightarrow> string \<Rightarrow> jsval \<Rightarrow> state" where
  "saveView st projectId v =
     (if \<not> isCloudEnabled st \<or> projectId = [] then st
      else case ensureBoardDataRow st projectId of (st1, row) \<Rightarrow>
        persistBoardData
          (st1\<lparr>boardDataCache := (boardDataCache st1)(projectId \<mapsto> row\<lparr>view := v\<rparr>)\<rparr>)
          projectId)"

definition saveCustomPalettes :: "state \<Rightarrow> string \<Rightarrow> jsval \<Rightarrow> state" where
  "saveCustomPalettes st projectId palettes =
     (if \<not> isCloudEnabled st \<or> projectId = [] then st
      else case ensureBoardDataRow st projectId of (st1, row) \<Rightarrow>
        persistBoardData
          (st1\<lparr>boardDataCache :=
                 (boardDataCache st1)(projectId \<mapsto> row\<lparr>custom_palettes := palettes\<rparr>)\<rparr>)
          projectId)"

subsection \<open>Project list cache and session callback\<close>

text \<open>\<^verbatim>\<open>name || "Untitled project"\<close>\<close>

definition name_or_untitled :: "string \<Rightarrow> string" where
  "name_or_untitled n = (if n \<noteq> [] then n else ''Untitled project'')"

text \<open>
  The mapping of a \<^verbatim>\<open>boards\<close> row to a cache entry. The row's \<^verbatim>\<open>created_at\<close> is taken as
  the number \<^verbatim>\<open>new Date(row.created_at).getTime()\<close> yields.
\<close>

definition project_of_row :: "board_row \<Rightarrow> project" where
  "project_of_row row =
     \<lparr>proj_id = row_id row, proj_name = name_or_untitled (row_name row),
      createdAt = row_created_at row\<rparr>"

text \<open>
  \<open>sess\<close> is what \<^verbatim>\<open>supabase.auth.getSession()\<close> resolves to, \<open>r\<close> what the \<^verbatim>\<open>boards\<close> select
  resolves to (\<open>Reply None\<close> when \<^verbatim>\<open>data\<close> is null without an error).
\<close>

definition ensureBoardsListLoaded ::
  "state \<Rightarrow> session option \<Rightarrow> board_row list option reply \<Rightarrow> state" where
  "ensureBoardsListLoaded st sess r =
     (if supabase st = None then st
      else
        let st1 = emit st GetSession in
        (case sess of
           None \<Rightarrow> st1
         | Some s \<Rightarrow>
             let st2 = emit st1 (SelectBoards (user_id s)) in
             (case r of
                Failure code \<Rightarrow> emit st2 (Warn ''Supabase boards list:'')
              | Reply dat \<Rightarrow>
                  st2\<lparr>projectsListCache :=
                        map project_of_row (case dat of None \<Rightarrow> [] | Some rows \<Rightarrow> rows)\<rparr>)))"

text \<open>\<^verbatim>\<open>if (authCallback) authCallback(session)\<close>\<close>

definition notify :: "state \<Rightarrow> session option \<Rightarrow> state" where
  "notify st sess =
     (if authCallback st then emit st (Callback sess (projectsListCache st) (boardDataCache st))
      else st)"

definition signOut :: "state \<Rightarrow> state" where
  "signOut st =
     (if supabase st = None then st
      else
        let st1 = emit st AuthSignOut;
            st2 = st1\<lparr>projectsListCache := [], boardDataCache := Map.empty\<rparr>
        in notify st2 None)"

text \<open>
  The handler that \<^verbatim>\<open>init\<close> registers with \<^verbatim>\<open>supabase.auth.onAuthStateChange\<close>. \<open>event\<close> and
  \<open>sess\<close> are the handler's arguments; \<open>current\<close> and \<open>r\<close> are the answers to the two
  requests of \<^verbatim>\<open>ensureBoardsListLoaded\<close>.
\<close>

definition onAuthStateChange ::
  "state \<Rightarrow> string \<Rightarrow> session option \<Rightarrow> session option \<Rightarrow> board_row list option reply
   \<Rightarrow> state" where
  "onAuthStateChange st event sess current r =
     (let st1 =
        (if event = ''INITIAL_SESSION'' \<or> event = ''SIGNED_IN'' \<or> event = ''TOKEN_REFRESHED''
         then (if sess \<noteq> None then ensureBoardsListLoaded st current r else st)
         else if event = ''SIGNED_OUT''
         then st\<lparr>projectsListCache := [], boardDataCache := Map.empty\<rparr>
         else st)
      in notify st1 sess)"

subsection \<open>Board lifecycle\<close>

text \<open>
  \<open>sess\<close> answers \<^verbatim>\<open>getSession\<close>, \<open>ins\<close> answers the insert into \<^verbatim>\<open>boards\<close> (\<open>Reply (Some i)\<close>
  is the row \<^verbatim>\<open>{ id: i }\<close>, \<open>Reply None\<close> a null row without an error), \<open>now\<close> is
  \<^verbatim>\<open>Date.now()\<close>. The answer to the insert into \<^verbatim>\<open>board_data\<close> is not looked at.
\<close>

definition createBoard ::
  "state \<Rightarrow> string \<Rightarrow> session option \<Rightarrow> string option reply \<Rightarrow> int \<Rightarrow> state \<times> string option"
  where
  "createBoard st name sess ins now =
     (if supabase st = None then (st, None)
      else
        let st1 = emit st GetSession in
        (case sess of
           None \<Rightarrow> (st1, None)
         | Some s \<Rightarrow>
             let st2 = emit st1 (InsertBoard (user_id s) (name_or_untitled name)) in
             (case ins of
                Failure code \<Rightarrow> (emit st2 (Warn ''Supabase create board:''), None)
              | Reply None \<Rightarrow> (emit st2 (Warn ''Supabase create board:''), None)
              | Reply (Some i) \<Rightarrow>
                  let st3 = emit st2 (InsertBoardData i) in
                  (case default_row (heap st3) of (h, row) \<Rightarrow>
                     (st3\<lparr>heap := h,
                          boardDataCache := (boardDataCache st3)(i \<mapsto> row),
                          projectsListCache := projectsListCache st3 @
                            [\<lparr>proj_id = i, proj_name = name_or_untitled name,
                              createdAt = now\<rparr>]\<rparr>,
                      Some i)))))"




definition deleteBoard :: "state \<Rightarrow> string \<Rightarrow> state" where
  "deleteBoard st projectId =
     (if supabase st = None \<or> projectId = [] then st
      else
        let st1 = emit st (DeleteBoard projectId) in
        st1\<lparr>boardDataCache := (boardDataCache st1)(projectId := None),
            projectsListCache := filter (\<lambda>p. proj_id p \<noteq> projectId) (projectsListCache st1)\<rparr>)"

subsection \<open>Auxiliary notions for the properties\<close>

text \<open>Counting the \<^verbatim>\<open>board_data\<close> selects and inserts a state's trace holds.\<close>

fun is_fetch :: "event \<Rightarrow> bool" where
  "is_fetch (SelectBoardData q) = True"
| "is_fetch _ = False"

definition fetches :: "state \<Rightarrow> nat" where
  "fetches st = length (filter is_fetch (trace st))"

fun is_doc_insert :: "event \<Rightarrow> bool" where
  "is_doc_insert (InsertBoardData q) = True"
| "is_doc_insert _ = False"

definition doc_inserts :: "state \<Rightarrow> nat" where
  "doc_inserts st = length (filter is_doc_insert (trace st))"

text \<open>
  What \<^verbatim>\<open>ensureBoardsListLoaded\<close> sends and what it leaves in the project list cache, in
  an enabled session, written out by the case of the two answers.
\<close>

definition reload_events :: "session option \<Rightarrow> board_row list option reply \<Rightarrow> event list" where
  "reload_events current r =
     GetSession #
     (case current of
        None \<Rightarrow> []
      | Some u \<Rightarrow>
          SelectBoards (user_id u) #
          (case r of Failure c \<Rightarrow> [Warn ''Supabase boards list:''] | Reply dat \<Rightarrow> []))"

definition reloaded_list ::
  "project list \<Rightarrow> session option \<Rightarrow> board_row list option reply \<Rightarrow> project list" where
  "reloaded_list old current r =
     (case current of
        None \<Rightarrow> old
      | Some u \<Rightarrow>
          (case r of
             Failure c \<Rightarrow> old
           | Reply dat \<Rightarrow> map project_of_row (case dat of None \<Rightarrow> [] | Some rows \<Rightarrow> rows)))"

text \<open>A call of one of the four setters, and a sequence of such calls.\<close>

datatype write_call =
    SaveTasks string jsval
  | SaveSettings string jsval
  | SaveView string jsval
  | SaveCustomPalettes string jsval

fun perform :: "state \<Rightarrow> write_call \<Rightarrow> state" where
  "perform st (SaveTasks p v) = saveTasks st p v"
| "perform st (SaveSettings p v) = saveSettings st p v"
| "perform st (SaveView p v) = saveView st p v"
| "perform st (SaveCustomPalettes p v) = saveCustomPalettes st p v"

definition perform_all :: "state \<Rightarrow> write_call list \<Rightarrow> state" where
  "perform_all st ws = foldl perform st ws"

text \<open>
  \<open>agree h h'\<close>: every object of the heap \<open>h\<close> is still there, unchanged, in \<open>h'\<close>.
\<close>

definition agree :: "heap \<Rightarrow> heap \<Rightarrow> bool" where
  "agree h h' = (length h \<le> length h' \<and> (\<forall>i<length h. h' ! i = h ! i))"

text \<open>The shape of a value: an array, an object, a string; an empty array or object.\<close>

fun is_array :: "heap \<Rightarrow> jsval \<Rightarrow> bool" where
  "is_array h (Ref a) = (a < length h \<and> (case h ! a of Arr vs \<Rightarrow> True | Obj ps \<Rightarrow> False))"
| "is_array h _ = False"

fun is_object :: "heap \<Rightarrow> jsval \<Rightarrow> bool" where
  "is_object h (Ref a) = (a < length h \<and> (case h ! a of Arr vs \<Rightarrow> False | Obj ps \<Rightarrow> True))"
| "is_object h _ = False"

fun is_string :: "jsval \<Rightarrow> bool" where
  "is_string (Str s) = True"
| "is_string _ = False"

fun is_empty_array :: "heap \<Rightarrow> jsval \<Rightarrow> bool" where
  "is_empty_array h (Ref a) = (a < length h \<and> h ! a = Arr [])"
| "is_empty_array h _ = False"

fun is_empty_object :: "heap \<Rightarrow> jsval \<Rightarrow> bool" where
  "is_empty_object h (Ref a) = (a < length h \<and> h ! a = Obj [])"
| "is_empty_object h _ = False"

text \<open>JSON texts of a column: an array or null; an object or null; a string or null.\<close>

fun array_or_null :: "json \<Rightarrow> bool" where
  "array_or_null (JArr ts) = True"
| "array_or_null JNull = True"
| "array_or_null _ = False"

fun object_or_null :: "json \<Rightarrow> bool" where
  "object_or_null (JObj ps) = True"
| "object_or_null JNull = True"
| "object_or_null _ = False"

fun string_or_null :: "json \<Rightarrow> bool" where
  "string_or_null (JStr s) = True"
| "string_or_null JNull = True"
| "string_or_null _ = False"

text \<open>
  The names a lookup in a plain object finds without the object having them: the
  properties of \<^verbatim>\<open>Object.prototype\<close>, and the four field names, which a setter called with
  \<^verbatim>\<open>__proto__\<close> as the id adds to \<^verbatim>\<open>Object.prototype\<close>.
\<close>

definition reserved_names :: "string list" where
  "reserved_names =
     [''constructor'', ''__defineGetter__'', ''__defineSetter__'', ''hasOwnProperty'',
      ''__lookupGetter__'', ''__lookupSetter__'', ''isPrototypeOf'', ''propertyIsEnumerable'',
      ''toString'', ''valueOf'', ''__proto__'', ''toLocaleString'',
      ''tasks'', ''settings'', ''view'', ''custom_palettes'']"

text \<open>Truthiness of the value a JSON text is parsed to.\<close>

fun json_truthy :: "json \<Rightarrow> bool" where
  "json_truthy JNull = False"
| "json_truthy (JBool b) = b"
| "json_truthy (JNum n) = (n \<noteq> 0)"
| "json_truthy (JStr s) = (s \<noteq> [])"
| "json_truthy (JArr ts) = True"
| "json_truthy (JObj ps) = True"

text \<open>The nesting depth of a JSON text.\<close>

fun depth :: "json \<Rightarrow> nat"
  and depth_list :: "json list \<Rightarrow> nat"
  and depth_props :: "(string \<times> json) list \<Rightarrow> nat" where
  "depth JNull = 0"
| "depth (JBool b) = 0"
| "depth (JNum n) = 0"
| "depth (JStr s) = 0"
| "depth (JArr ts) = Suc (depth_list ts)"
| "depth (JObj ps) = Suc (depth_props ps)"
| "depth_list [] = 0"
| "depth_list (t # ts) = max (depth t) (depth_list ts)"
| "depth_props [] = 0"
| "depth_props ((k, t) # ps) = max (depth t) (depth_props ps)"

text \<open>States used to run the functions on concrete inputs.\<close>

definition disabled_state :: state where
  "disabled_state =
     \<lparr>supabase = None, projectsListCache = [], boardDataCache = Map.empty,
      authCallback = False, heap = [], trace = []\<rparr>"

definition enabled_state :: state where
  "enabled_state =
     \<lparr>supabase = Some (Client ''https://abc.supabase.co'' ''key''), projectsListCache = [],
      boardDataCache = Map.empty, authCallback = True, heap = [], trace = []\<rparr>"

definition sample_state :: state where
  "sample_state =
     \<lparr>supabase = Some (Client ''https://abc.supabase.co'' ''key''),
      projectsListCache =
        [\<lparr>proj_id = ''x'', proj_name = ''Launch Plan'', createdAt = 1\<rparr>,
         \<lparr>proj_id = ''y'', proj_name = ''Other'', createdAt = 2\<rparr>],
      boardDataCache =
        [''x'' \<mapsto> \<lparr>tasks = Ref 1, settings = Ref 2, view = Str ''default'',
                  custom_palettes = Ref 3\<rparr>],
      authCallback = True,
      heap = [Obj [(''task'', Str ''A'')], Arr [Ref 0], Obj [], Arr []],
      trace = []\<rparr>"

definition loaded_state :: state where
  "loaded_state = ensureBoardDataLoaded enabled_state ''p1'' (Failure ''PGRST116'')"

text \<open>Two rows the \<^verbatim>\<open>board_data\<close> select may answer with.\<close>

definition typical_row :: row_data where
  "typical_row =
     \<lparr>data_tasks = JArr [JObj [(''task'', JStr ''A'')]], data_settings = JNull,
      data_view = JStr [], data_custom_palettes = JArr []\<rparr>"

definition number_row :: row_data where
  "number_row = \<lparr>data_tasks = JNum 5, data_settings = JObj [], data_view = JStr ''timeline'',
     data_custom_palettes = JArr []\<rparr>"

section \<open>Properties\<close>

subsection \<open>Heap objects persist; parsing and printing JSON\<close>

lemma agree_refl: "agree h h" by (simp add: agree_def)

lemma agree_trans: "agree h1 h2 \<Longrightarrow> agree h2 h3 \<Longrightarrow> agree h1 h3"
  by (auto simp: agree_def)

lemma agree_append: "agree h (h @ ext)" by (simp add: agree_def nth_append)


lemma materialize_agree:
  "agree h (fst (materialize h t))"
  "agree h (fst (materialize_list h ts))"
  "agree h (fst (materialize_props h ps))"
proof (induction h t and h ts and h ps rule: materialize_materialize_list_materialize_props.induct)
  case (5 h ts)
  then show ?case
    by (auto simp: agree_refl split: prod.splits intro: agree_trans agree_append)
next
  case (6 h ps)
  then show ?case by (auto simp: agree_refl split: prod.splits intro: agree_trans agree_append)
next
  case (8 h t ts)
  then show ?case by (auto simp: agree_refl split: prod.splits intro: agree_trans)
next
  case (10 h k t ps)
  then show ?case by (auto simp: agree_refl split: prod.splits intro: agree_trans)
qed (simp_all add: agree_refl)

lemma is_array_agree: "is_array h v \<Longrightarrow> agree h h' \<Longrightarrow> is_array h' v"
  by (cases v) (auto simp: agree_def)

lemma is_object_agree: "is_object h v \<Longrightarrow> agree h h' \<Longrightarrow> is_object h' v"
  by (cases v) (auto simp: agree_def)

lemma is_empty_array_agree: "is_empty_array h v \<Longrightarrow> agree h h' \<Longrightarrow> is_empty_array h' v"
  by (cases v) (auto simp: agree_def)

lemma is_empty_object_agree: "is_empty_object h v \<Longrightarrow> agree h h' \<Longrightarrow> is_empty_object h' v"
  by (cases v) (auto simp: agree_def)

lemma alloc_agree: "agree h (fst (alloc h ob))"
  by (simp add: alloc_def agree_append)

lemma or_new_agree: "agree h (fst (or_new h v ob))"
  by (simp add: or_new_def alloc_agree agree_refl)

lemma or_new_truthy: "truthy (snd (or_new h v ob))"
  by (simp add: or_new_def alloc_def)

lemma materialize_shape:
  "array_or_null t \<Longrightarrow> materialize h t = (h', v) \<Longrightarrow> is_array h' v \<or> \<not> truthy v"
  "object_or_null t \<Longrightarrow> materialize h t = (h', v) \<Longrightarrow> is_object h' v \<or> \<not> truthy v"
  "string_or_null t \<Longrightarrow> materialize h t = (h', v) \<Longrightarrow> is_string v \<or> \<not> truthy v"
  by (cases t; auto split: prod.splits)+

lemma or_new_array:
  "is_array h v \<or> \<not> truthy v \<Longrightarrow> or_new h v (Arr []) = (h', x) \<Longrightarrow> is_array h' x"
  by (auto simp: or_new_def alloc_def split: if_splits)

lemma or_new_object:
  "is_object h v \<or> \<not> truthy v \<Longrightarrow> or_new h v (Obj []) = (h', x) \<Longrightarrow> is_object h' x"
  by (auto simp: or_new_def alloc_def split: if_splits)

lemma default_row_shape:
  "default_row h = (h', row) \<Longrightarrow>
     is_empty_array h' (tasks row) \<and> is_empty_object h' (settings row)
     \<and> view row = Str ''default'' \<and> is_empty_array h' (custom_palettes row)"
  by (auto simp: default_row_def alloc_def nth_append)

lemma default_row_agree: "agree h (fst (default_row h))"
  by (simp add: default_row_def alloc_def agree_def nth_append)

lemma truthy_defined: "truthy v \<Longrightarrow> v \<noteq> Null \<and> v \<noteq> Undefined"
  by (cases v) simp_all






text \<open>
  What \<^verbatim>\<open>JSON.parse\<close> builds, \<^verbatim>\<open>JSON.stringify\<close> reads back: the depth bound is not
  reached, since building a text of some depth allocates at least that many objects.
\<close>

lemma agree_length: "agree h h' \<Longrightarrow> length h \<le> length h'"
  by (simp add: agree_def)

lemma materialize_length:
  "length h + depth t \<le> length (fst (materialize h t))"
  "length h + depth_list ts \<le> length (fst (materialize_list h ts))"
  "length h + depth_props ps \<le> length (fst (materialize_props h ps))"
proof (induction h t and h ts and h ps rule: materialize_materialize_list_materialize_props.induct)
  case (8 h t ts)
  obtain h1 v where m1: "materialize h t = (h1, v)"
    by (cases "materialize h t")
  obtain h2 vs where m2: "materialize_list h1 ts = (h2, vs)"
    by (cases "materialize_list h1 ts")
  from "8.IH"(1) m1 have a: "length h + depth t \<le> length h1"
    by simp
  from "8.IH"(2) [OF m1 [symmetric]] m2 have b: "length h1 + depth_list ts \<le> length h2"
    by simp
  from a b m1 m2 show ?case
    by simp
next
  case (10 h k t ps)
  obtain h1 v where m1: "materialize h t = (h1, v)"
    by (cases "materialize h t")
  obtain h2 qs where m2: "materialize_props h1 ps = (h2, qs)"
    by (cases "materialize_props h1 ps")
  from "10.IH"(1) m1 have a: "length h + depth t \<le> length h1"
    by simp
  from "10.IH"(2) [OF m1 [symmetric]] m2 have b: "length h1 + depth_props ps \<le> length h2"
    by simp
  from a b m1 m2 show ?case
    by simp
qed (auto split: prod.splits)

lemma materialize_serialize:
  "materialize h t = (h', v) \<Longrightarrow> depth t \<le> k \<Longrightarrow> agree h' h'' \<Longrightarrow>
     serialize k h'' v = Inr (Some t)"
  "materialize_list h ts = (h', vs) \<Longrightarrow> depth_list ts \<le> k \<Longrightarrow> agree h' h'' \<Longrightarrow>
     serialize_list k h'' vs = Inr ts"
  "materialize_props h ps = (h', qs) \<Longrightarrow> depth_props ps \<le> k \<Longrightarrow> agree h' h'' \<Longrightarrow>
     serialize_props k h'' qs = Inr ps"
proof (induction h t and h ts and h ps arbitrary: h' v k h'' and h' vs k h'' and h' qs k h''
    rule: materialize_materialize_list_materialize_props.induct)
  case (5 h ts)
  obtain h1 ws where m: "materialize_list h ts = (h1, ws)"
    by (cases "materialize_list h ts")
  with "5.prems" have h': "h' = h1 @ [Arr ws]" and v: "v = Ref (length h1)"
    by simp_all
  from "5.prems"(2) obtain k0 where k: "k = Suc k0" and d: "depth_list ts \<le> k0"
    by (cases k) auto
  have a1: "agree h1 h''"
    using agree_append [of h1 "[Arr ws]"] "5.prems"(3) h' agree_trans by blast
  have lt: "length h1 < length h''" and at: "h'' ! length h1 = Arr ws"
    using "5.prems"(3) h' by (auto simp: agree_def nth_append)
  from "5.IH" [OF m d a1] lt at show ?case
    by (simp add: k v)
next
  case (6 h ps)
  obtain h1 ws where m: "materialize_props h ps = (h1, ws)"
    by (cases "materialize_props h ps")
  with "6.prems" have h': "h' = h1 @ [Obj ws]" and v: "v = Ref (length h1)"
    by simp_all
  from "6.prems"(2) obtain k0 where k: "k = Suc k0" and d: "depth_props ps \<le> k0"
    by (cases k) auto
  have a1: "agree h1 h''"
    using agree_append [of h1 "[Obj ws]"] "6.prems"(3) h' agree_trans by blast
  have lt: "length h1 < length h''" and at: "h'' ! length h1 = Obj ws"
    using "6.prems"(3) h' by (auto simp: agree_def nth_append)
  from "6.IH" [OF m d a1] lt at show ?case
    by (simp add: k v)
next
  case (8 h t ts)
  obtain h1 w where m1: "materialize h t = (h1, w)"
    by (cases "materialize h t")
  obtain h2 ws where m2: "materialize_list h1 ts = (h2, ws)"
    by (cases "materialize_list h1 ts")
  from "8.prems"(1) m1 m2 have h': "h' = h2" and vs: "vs = w # ws"
    by simp_all
  have a12: "agree h1 h2"
    using materialize_agree(2) [of h1 ts] m2 by simp
  have a1: "agree h1 h''"
    using a12 "8.prems"(3) h' agree_trans by blast
  from "8.prems"(2) have d1: "depth t \<le> k" and d2: "depth_list ts \<le> k"
    by simp_all
  from "8.IH"(1) [OF m1 d1 a1] "8.IH"(2) [OF m1 [symmetric] m2 d2] "8.prems"(3) h'
  show ?case
    by (simp add: vs)
next
  case (10 h key t ps)
  obtain h1 w where m1: "materialize h t = (h1, w)"
    by (cases "materialize h t")
  obtain h2 ws where m2: "materialize_props h1 ps = (h2, ws)"
    by (cases "materialize_props h1 ps")
  from "10.prems"(1) m1 m2 have h': "h' = h2" and qs: "qs = (key, w) # ws"
    by simp_all
  have a12: "agree h1 h2"
    using materialize_agree(3) [of h1 ps] m2 by simp
  have a1: "agree h1 h''"
    using a12 "10.prems"(3) h' agree_trans by blast
  from "10.prems"(2) have d1: "depth t \<le> k" and d2: "depth_props ps \<le> k"
    by simp_all
  from "10.IH"(1) [OF m1 d1 a1] "10.IH"(2) [OF m1 [symmetric] m2 d2] "10.prems"(3) h'
  show ?case
    by (simp add: qs)
qed auto

lemma parse_then_stringify:
  assumes "materialize h t = (h', v)" and "agree h' h''"
  shows "JSON_stringify h'' v = Inr (Some t)"
proof -
  from materialize_length(1) [of h t] assms have "depth t \<le> length h''"
    by (auto dest: agree_length)
  with assms show ?thesis
    unfolding JSON_stringify_def by (intro materialize_serialize(1))
qed

lemma json_clone_reads_the_same:
  assumes "json_clone h v = Inr (h', v')"
  shows "JSON_stringify h' v' = JSON_stringify h v \<and> agree h h'"
proof -
  from assms obtain t where s: "JSON_stringify h v = Inr (Some t)"
    and m: "materialize h t = (h', v')"
    by (auto simp: json_clone_def JSON_parse_def split: sum.splits option.splits)
  from parse_then_stringify [OF m agree_refl] s materialize_agree(1) [of h t] m
  show ?thesis
    by simp
qed






subsection \<open>Setters with an empty project id\<close>

text \<open>
  C10. Each of the four setters, called with the empty project id, returns the state it
  was given, in an enabled session as in a disabled one: no cache entry is created or
  changed, and no upsert (nor any other event) is added to the trace.
\<close>

theorem save_empty_id_noop:
  "saveTasks st [] v = st \<and> saveSettings st [] v = st \<and> saveView st [] v = st
   \<and> saveCustomPalettes st [] v = st"
  by (simp add: saveTasks_def saveSettings_def saveView_def saveCustomPalettes_def)

theorem save_empty_id_noop_witness:
  "saveTasks enabled_state [] (Num 1) = enabled_state
   \<and> saveSettings enabled_state [] (Num 1) = enabled_state
   \<and> saveView enabled_state [] (Num 1) = enabled_state
   \<and> saveCustomPalettes enabled_state [] (Num 1) = enabled_state"
  using save_empty_id_noop [of enabled_state "Num 1"] by simp

subsection \<open>Writes while the backend is disabled\<close>

lemma perform_disabled: "supabase st = None \<Longrightarrow> perform st w = st"
  by (cases w)
    (simp_all add: saveTasks_def saveSettings_def saveView_def saveCustomPalettes_def
      isCloudEnabled_def)

lemma perform_all_disabled: "supabase st = None \<Longrightarrow> perform_all st ws = st"
  unfolding perform_all_def by (induction ws) (simp_all add: perform_disabled)

text \<open>
  C2. While no client is configured, every sequence of calls of the four setters, for any
  project ids and values, leaves the state as it was (nothing is stored, nothing is sent),
  and each of the four reads, for any project id, returns \<^verbatim>\<open>null\<close> afterwards.
\<close>

theorem disabled_writes_suppressed:
  assumes "supabase st = None"
  shows "perform_all st ws = st
    \<and> loadTasks (perform_all st ws) p = Null
    \<and> loadSettings (perform_all st ws) p = Null
    \<and> loadView (perform_all st ws) p = Null
    \<and> loadCustomPalettes (perform_all st ws) p = Null"
  using assms
  by (simp add: perform_all_disabled loadTasks_def loadSettings_def loadView_def
      loadCustomPalettes_def isCloudEnabled_def)

theorem disabled_writes_suppressed_witness:
  "perform_all disabled_state
     [SaveTasks ''p1'' (Num 1), SaveView ''p1'' (Str ''timeline''), SaveSettings ''p2'' Null]
     = disabled_state
   \<and> loadTasks (perform_all disabled_state
        [SaveTasks ''p1'' (Num 1), SaveView ''p1'' (Str ''timeline''), SaveSettings ''p2'' Null])
        ''p1'' = Null
   \<and> loadSettings (perform_all disabled_state
        [SaveTasks ''p1'' (Num 1), SaveView ''p1'' (Str ''timeline''), SaveSettings ''p2'' Null])
        ''p1'' = Null
   \<and> loadView (perform_all disabled_state
        [SaveTasks ''p1'' (Num 1), SaveView ''p1'' (Str ''timeline''), SaveSettings ''p2'' Null])
        ''p1'' = Null
   \<and> loadCustomPalettes (perform_all disabled_state
        [SaveTasks ''p1'' (Num 1), SaveView ''p1'' (Str ''timeline''), SaveSettings ''p2'' Null])
        ''p1'' = Null"
proof -
  have h: "supabase disabled_state = None"
    by (simp add: disabled_state_def)
  show ?thesis
    by (rule disabled_writes_suppressed [OF h])
qed

subsection \<open>Write, then read\<close>









subsection \<open>Loading a board document twice\<close>

lemma ensure_cached_noop:
  "boardDataCache st p \<noteq> None \<Longrightarrow> ensureBoardDataLoaded st p r = st"
  by (simp add: ensureBoardDataLoaded_def)

lemma ensure_populates:
  "supabase st \<noteq> None \<Longrightarrow> p \<noteq> [] \<Longrightarrow>
     boardDataCache (ensureBoardDataLoaded st p r) p \<noteq> None"
  by (simp add: ensureBoardDataLoaded_def Let_def emit_def split: reply.splits prod.splits)

lemma ensure_supabase: "supabase (ensureBoardDataLoaded st p r) = supabase st"
  by (simp add: ensureBoardDataLoaded_def Let_def emit_def split: reply.splits prod.splits)

lemma ensure_twice:
  "ensureBoardDataLoaded (ensureBoardDataLoaded st p r1) p r2 = ensureBoardDataLoaded st p r1"
proof (cases "supabase st = None \<or> p = []")
  case True
  then show ?thesis
    by (auto simp add: ensureBoardDataLoaded_def)
next
  case False
  then have "boardDataCache (ensureBoardDataLoaded st p r1) p \<noteq> None"
    by (simp add: ensure_populates)
  then show ?thesis
    by (rule ensure_cached_noop)
qed

lemma ensure_fetches: "fetches (ensureBoardDataLoaded st p r) \<le> fetches st + 1"
  by (simp add: ensureBoardDataLoaded_def Let_def emit_def fetches_def
      split: reply.splits prod.splits)

text \<open>
  C6. When the document of a project id is already cached, \<^verbatim>\<open>ensureBoardDataLoaded\<close>
  returns the state it was given: no select is sent and the cached document stays as it
  is. A second call for the same id changes nothing after the first, whatever the backend
  would answer, so the two calls send at most one select between them.
\<close>

theorem ensure_loaded_idempotent:
  "(boardDataCache st p \<noteq> None \<longrightarrow>
      ensureBoardDataLoaded st p r1 = st
      \<and> fetches (ensureBoardDataLoaded st p r1) = fetches st)
   \<and> ensureBoardDataLoaded (ensureBoardDataLoaded st p r1) p r2 =
       ensureBoardDataLoaded st p r1
   \<and> fetches (ensureBoardDataLoaded (ensureBoardDataLoaded st p r1) p r2) \<le> fetches st + 1"
proof -
  have "fetches (ensureBoardDataLoaded (ensureBoardDataLoaded st p r1) p r2) \<le> fetches st + 1"
    by (simp only: ensure_twice ensure_fetches)
  then show ?thesis
    by (simp add: ensure_cached_noop ensure_twice)
qed

theorem ensure_loaded_idempotent_witness:
  "boardDataCache loaded_state ''p1'' \<noteq> None
   \<and> ensureBoardDataLoaded loaded_state ''p1'' (Failure ''500'') = loaded_state
   \<and> fetches (ensureBoardDataLoaded loaded_state ''p1'' (Failure ''500'')) = fetches loaded_state
   \<and> ensureBoardDataLoaded (ensureBoardDataLoaded enabled_state ''p1'' (Failure ''PGRST116'')) ''p1''
        (Failure ''500'') = ensureBoardDataLoaded enabled_state ''p1'' (Failure ''PGRST116'')
   \<and> fetches (ensureBoardDataLoaded (ensureBoardDataLoaded enabled_state ''p1'' (Failure ''PGRST116''))
        ''p1'' (Failure ''500'')) \<le> fetches enabled_state + 1"
proof -
  have h: "boardDataCache loaded_state ''p1'' \<noteq> None"
    by (simp add: loaded_state_def ensureBoardDataLoaded_def enabled_state_def emit_def
        default_row_def alloc_def)
  from ensure_loaded_idempotent [of loaded_state "''p1''" "Failure ''500''"] h
    ensure_loaded_idempotent [of enabled_state "''p1''" "Failure ''PGRST116''" "Failure ''500''"]
  show ?thesis by blast
qed

subsection \<open>Reads after a board document was loaded\<close>

lemma ensure_failure_result:
  assumes "supabase st \<noteq> None" and "p \<noteq> []" and "boardDataCache st p = None"
  shows "\<exists>row. boardDataCache (ensureBoardDataLoaded st p (Failure c)) p = Some row
    \<and> is_empty_array (heap (ensureBoardDataLoaded st p (Failure c))) (tasks row)
    \<and> is_empty_object (heap (ensureBoardDataLoaded st p (Failure c))) (settings row)
    \<and> view row = Str ''default''
    \<and> is_empty_array (heap (ensureBoardDataLoaded st p (Failure c))) (custom_palettes row)"
proof -
  obtain h row where d: "default_row (heap st) = (h, row)"
    by (cases "default_row (heap st)")
  from default_row_shape [OF d] d assms show ?thesis
    by (simp add: ensureBoardDataLoaded_def emit_def Let_def del: not_None_eq)
qed

lemma ensure_reply_result:
  assumes "supabase st \<noteq> None" and "p \<noteq> []" and "boardDataCache st p = None"
  shows "\<exists>row. boardDataCache (ensureBoardDataLoaded st p (Reply d)) p = Some row
    \<and> truthy (tasks row) \<and> truthy (settings row) \<and> truthy (view row)
    \<and> truthy (custom_palettes row)
    \<and> (array_or_null (data_tasks d) \<longrightarrow>
         is_array (heap (ensureBoardDataLoaded st p (Reply d))) (tasks row))
    \<and> (object_or_null (data_settings d) \<longrightarrow>
         is_object (heap (ensureBoardDataLoaded st p (Reply d))) (settings row))
    \<and> (string_or_null (data_view d) \<longrightarrow> is_string (view row))
    \<and> (array_or_null (data_custom_palettes d) \<longrightarrow>
         is_array (heap (ensureBoardDataLoaded st p (Reply d))) (custom_palettes row))"
proof -
  obtain h1 t where m1: "materialize (heap st) (data_tasks d) = (h1, t)"
    by (cases "materialize (heap st) (data_tasks d)")
  obtain h2 s where m2: "materialize h1 (data_settings d) = (h2, s)"
    by (cases "materialize h1 (data_settings d)")
  obtain h3 v where m3: "materialize h2 (data_view d) = (h3, v)"
    by (cases "materialize h2 (data_view d)")
  obtain h4 c where m4: "materialize h3 (data_custom_palettes d) = (h4, c)"
    by (cases "materialize h3 (data_custom_palettes d)")
  obtain h5 t' where o1: "or_new h4 t (Arr []) = (h5, t')"
    by (cases "or_new h4 t (Arr [])")
  obtain h6 s' where o2: "or_new h5 s (Obj []) = (h6, s')"
    by (cases "or_new h5 s (Obj [])")
  obtain h7 c' where o3: "or_new h6 c (Arr []) = (h7, c')"
    by (cases "or_new h6 c (Arr [])")
  let ?row = "\<lparr>tasks = t', settings = s',
      view = (if truthy v then v else Str ''default''), custom_palettes = c'\<rparr>"
  have res: "ensureBoardDataLoaded st p (Reply d) =
      (emit st (SelectBoardData p))\<lparr>heap := h7,
         boardDataCache := (boardDataCache st)(p \<mapsto> ?row)\<rparr>"
    using assms m1 m2 m3 m4 o1 o2 o3
    by (simp add: ensureBoardDataLoaded_def parse_row_def emit_def del: not_None_eq)
  have a12: "agree h1 h2" using materialize_agree(1) [of h1 "data_settings d"] m2 by simp
  have a23: "agree h2 h3" using materialize_agree(1) [of h2 "data_view d"] m3 by simp
  have a34: "agree h3 h4" using materialize_agree(1) [of h3 "data_custom_palettes d"] m4 by simp
  have a45: "agree h4 h5" using or_new_agree [of h4 t "Arr []"] o1 by simp
  have a56: "agree h5 h6" using or_new_agree [of h5 s "Obj []"] o2 by simp
  have a67: "agree h6 h7" using or_new_agree [of h6 c "Arr []"] o3 by simp
  have tt: "truthy t'" using or_new_truthy [of h4 t "Arr []"] o1 by simp
  have ts: "truthy s'" using or_new_truthy [of h5 s "Obj []"] o2 by simp
  have tc: "truthy c'" using or_new_truthy [of h6 c "Arr []"] o3 by simp
  have tv: "truthy (if truthy v then v else Str ''default'')" by simp
  have st: "is_array h7 t'" if "array_or_null (data_tasks d)"
  proof -
    from materialize_shape(1) [OF that m1] have "is_array h4 t \<or> \<not> truthy t"
      using is_array_agree a12 a23 a34 agree_trans by blast
    from or_new_array [OF this o1] show ?thesis
      using is_array_agree a56 a67 agree_trans by blast
  qed
  have ss: "is_object h7 s'" if "object_or_null (data_settings d)"
  proof -
    from materialize_shape(2) [OF that m2] have "is_object h5 s \<or> \<not> truthy s"
      using is_object_agree a23 a34 a45 agree_trans by blast
    from or_new_object [OF this o2] show ?thesis
      using is_object_agree a67 by blast
  qed
  have sv: "is_string (if truthy v then v else Str ''default'')" if "string_or_null (data_view d)"
    using materialize_shape(3) [OF that m3] by auto
  have sc: "is_array h7 c'" if "array_or_null (data_custom_palettes d)"
  proof -
    from materialize_shape(1) [OF that m4] have "is_array h6 c \<or> \<not> truthy c"
      using is_array_agree a45 a56 agree_trans by blast
    from or_new_array [OF this o3] show ?thesis .
  qed
  have "boardDataCache (ensureBoardDataLoaded st p (Reply d)) p = Some ?row"
    and "heap (ensureBoardDataLoaded st p (Reply d)) = h7"
    by (simp_all add: res)
  with tt ts tc tv st ss sv sc show ?thesis
    by (intro exI [of _ ?row]) simp
qed

lemma materialize_truthy: "truthy (snd (materialize h t)) = json_truthy t"
  by (cases t) (auto split: prod.splits)

lemma or_new_kept: "truthy v \<Longrightarrow> or_new h v ob = (h, v)"
  by (simp add: or_new_def)

lemma or_new_fresh: "\<not> truthy v \<Longrightarrow> or_new h v ob = (h @ [ob], Ref (length h))"
  by (simp add: or_new_def alloc_def)

lemma ensure_reply_columns:
  assumes "supabase st \<noteq> None" and "p \<noteq> []" and "boardDataCache st p = None"
  shows "\<exists>row. boardDataCache (ensureBoardDataLoaded st p (Reply d)) p = Some row
    \<and> (if json_truthy (data_tasks d)
        then JSON_stringify (heap (ensureBoardDataLoaded st p (Reply d))) (tasks row) =
               Inr (Some (data_tasks d))
        else is_empty_array (heap (ensureBoardDataLoaded st p (Reply d))) (tasks row))
    \<and> (if json_truthy (data_settings d)
        then JSON_stringify (heap (ensureBoardDataLoaded st p (Reply d))) (settings row) =
               Inr (Some (data_settings d))
        else is_empty_object (heap (ensureBoardDataLoaded st p (Reply d))) (settings row))
    \<and> (if json_truthy (data_view d)
        then JSON_stringify (heap (ensureBoardDataLoaded st p (Reply d))) (view row) =
               Inr (Some (data_view d))
        else view row = Str ''default'')
    \<and> (if json_truthy (data_custom_palettes d)
        then JSON_stringify (heap (ensureBoardDataLoaded st p (Reply d))) (custom_palettes row) =
               Inr (Some (data_custom_palettes d))
        else is_empty_array (heap (ensureBoardDataLoaded st p (Reply d))) (custom_palettes row))"
proof -
  obtain h1 t where m1: "materialize (heap st) (data_tasks d) = (h1, t)"
    by (cases "materialize (heap st) (data_tasks d)")
  obtain h2 s where m2: "materialize h1 (data_settings d) = (h2, s)"
    by (cases "materialize h1 (data_settings d)")
  obtain h3 v where m3: "materialize h2 (data_view d) = (h3, v)"
    by (cases "materialize h2 (data_view d)")
  obtain h4 c where m4: "materialize h3 (data_custom_palettes d) = (h4, c)"
    by (cases "materialize h3 (data_custom_palettes d)")
  obtain h5 t' where o1: "or_new h4 t (Arr []) = (h5, t')"
    by (cases "or_new h4 t (Arr [])")
  obtain h6 s' where o2: "or_new h5 s (Obj []) = (h6, s')"
    by (cases "or_new h5 s (Obj [])")
  obtain h7 c' where o3: "or_new h6 c (Arr []) = (h7, c')"
    by (cases "or_new h6 c (Arr [])")
  let ?row = "\<lparr>tasks = t', settings = s',
      view = (if truthy v then v else Str ''default''), custom_palettes = c'\<rparr>"
  let ?st' = "ensureBoardDataLoaded st p (Reply d)"
  have res: "?st' =
      (emit st (SelectBoardData p))\<lparr>heap := h7,
         boardDataCache := (boardDataCache st)(p \<mapsto> ?row)\<rparr>"
    using assms m1 m2 m3 m4 o1 o2 o3
    by (simp add: ensureBoardDataLoaded_def parse_row_def emit_def del: not_None_eq)
  have a12: "agree h1 h2" using materialize_agree(1) [of h1 "data_settings d"] m2 by simp
  have a23: "agree h2 h3" using materialize_agree(1) [of h2 "data_view d"] m3 by simp
  have a34: "agree h3 h4" using materialize_agree(1) [of h3 "data_custom_palettes d"] m4 by simp
  have a45: "agree h4 h5" using or_new_agree [of h4 t "Arr []"] o1 by simp
  have a56: "agree h5 h6" using or_new_agree [of h5 s "Obj []"] o2 by simp
  have a67: "agree h6 h7" using or_new_agree [of h6 c "Arr []"] o3 by simp
  have a17: "agree h1 h7"
    using a12 a23 a34 a45 a56 a67 agree_trans by blast
  have a27: "agree h2 h7"
    using a23 a34 a45 a56 a67 agree_trans by blast
  have a37: "agree h3 h7"
    using a34 a45 a56 a67 agree_trans by blast
  have a47: "agree h4 h7"
    using a45 a56 a67 agree_trans by blast
  have a57: "agree h5 h7"
    using a56 a67 agree_trans by blast
  have tt: "truthy t = json_truthy (data_tasks d)"
    using materialize_truthy [of "heap st" "data_tasks d"] m1 by simp
  have ts: "truthy s = json_truthy (data_settings d)"
    using materialize_truthy [of h1 "data_settings d"] m2 by simp
  have tv: "truthy v = json_truthy (data_view d)"
    using materialize_truthy [of h2 "data_view d"] m3 by simp
  have tc: "truthy c = json_truthy (data_custom_palettes d)"
    using materialize_truthy [of h3 "data_custom_palettes d"] m4 by simp
  have c1: "if json_truthy (data_tasks d)
      then JSON_stringify h7 t' = Inr (Some (data_tasks d)) else is_empty_array h7 t'"
  proof (cases "truthy t")
    case True
    with o1 have "t' = t" by (simp add: or_new_kept)
    with parse_then_stringify [OF m1 a17] True tt show ?thesis by simp
  next
    case False
    with o1 have "is_empty_array h5 t'" by (auto simp add: or_new_fresh)
    from is_empty_array_agree [OF this a57] False tt show ?thesis by simp
  qed
  have c2: "if json_truthy (data_settings d)
      then JSON_stringify h7 s' = Inr (Some (data_settings d)) else is_empty_object h7 s'"
  proof (cases "truthy s")
    case True
    with o2 have "s' = s" by (simp add: or_new_kept)
    with parse_then_stringify [OF m2 a27] True ts show ?thesis by simp
  next
    case False
    with o2 have "is_empty_object h6 s'" by (auto simp add: or_new_fresh)
    from is_empty_object_agree [OF this a67] False ts show ?thesis by simp
  qed
  have c3: "if json_truthy (data_view d)
      then JSON_stringify h7 (if truthy v then v else Str ''default'') = Inr (Some (data_view d))
      else (if truthy v then v else Str ''default'') = Str ''default''"
    using parse_then_stringify [OF m3 a37] tv by simp
  have c4: "if json_truthy (data_custom_palettes d)
      then JSON_stringify h7 c' = Inr (Some (data_custom_palettes d)) else is_empty_array h7 c'"
  proof (cases "truthy c")
    case True
    with o3 have "c' = c" by (simp add: or_new_kept)
    with parse_then_stringify [OF m4 a47] True tc show ?thesis by simp
  next
    case False
    with o3 have "is_empty_array h7 c'" by (auto simp add: or_new_fresh)
    with False tc show ?thesis by simp
  qed
  have "boardDataCache ?st' p = Some ?row" and "heap ?st' = h7"
    by (simp_all add: res)
  with c1 c2 c3 c4 show ?thesis
    by (intro exI [of _ ?row]) simp
qed

lemma ensure_trace:
  assumes "supabase st \<noteq> None" and "p \<noteq> []" and "boardDataCache st p = None"
  shows "trace (ensureBoardDataLoaded st p r) = trace st @ SelectBoardData p #
    (case r of
       Failure c \<Rightarrow> (if c \<noteq> ''PGRST116'' then [Warn ''Supabase board_data:''] else [])
     | Reply d \<Rightarrow> [])"
  using assms
  by (simp add: ensureBoardDataLoaded_def emit_def Let_def
      split: reply.splits prod.splits del: not_None_eq)

lemma ensure_loaded_loads:
  assumes "supabase st \<noteq> None" and "p \<noteq> []"
    and "boardDataCache (ensureBoardDataLoaded st p r) p = Some row"
  shows "loadTasks (ensureBoardDataLoaded st p r) p = tasks row"
    and "loadSettings (ensureBoardDataLoaded st p r) p = settings row"
    and "loadView (ensureBoardDataLoaded st p r) p = view row"
    and "loadCustomPalettes (ensureBoardDataLoaded st p r) p = custom_palettes row"
  using assms
  by (simp_all add: loadTasks_def loadSettings_def loadView_def loadCustomPalettes_def
      isCloudEnabled_def ensure_supabase)

text \<open>
  C1 (as amended). In an enabled session and for a non-empty project id that is none of
  \<open>reserved_names\<close>, after \<^verbatim>\<open>ensureBoardDataLoaded\<close> the board cache holds a document for the
  id. When the id was already cached, the call leaves the state as it is, whatever the
  cached document holds. When it was not, one select is sent (and a warning logged on an
  error other than the no-row condition), and each of the four reads returns a truthy
  value, so neither \<^verbatim>\<open>null\<close> nor \<^verbatim>\<open>undefined\<close>:
  \<^item> on an error, the no-row condition included, an empty array, an empty object,
    \<^verbatim>\<open>"default"\<close> and an empty array;
  \<^item> on a row, for each field the value of the row's column (the read prints as the
    column's JSON text) when that value is truthy, and otherwise the default: an empty
    array, an empty object, \<^verbatim>\<open>"default"\<close>, an empty array;
  \<^item> so on a row whose columns hold an array, an object, a string and an array (or
    \<^verbatim>\<open>null\<close>), an array, an object, a string and an array.
\<close>

theorem ensure_loaded_reads:
  assumes "supabase st \<noteq> None" and "p \<noteq> []" and "p \<notin> set reserved_names"
  shows "boardDataCache (ensureBoardDataLoaded st p r) p \<noteq> None
    \<and> (boardDataCache st p \<noteq> None \<longrightarrow> ensureBoardDataLoaded st p r = st)
    \<and> (boardDataCache st p = None \<longrightarrow>
         truthy (loadTasks (ensureBoardDataLoaded st p r) p)
         \<and> truthy (loadSettings (ensureBoardDataLoaded st p r) p)
         \<and> truthy (loadView (ensureBoardDataLoaded st p r) p)
         \<and> truthy (loadCustomPalettes (ensureBoardDataLoaded st p r) p)
         \<and> loadTasks (ensureBoardDataLoaded st p r) p \<notin> {Null, Undefined}
         \<and> loadSettings (ensureBoardDataLoaded st p r) p \<notin> {Null, Undefined}
         \<and> loadView (ensureBoardDataLoaded st p r) p \<notin> {Null, Undefined}
         \<and> loadCustomPalettes (ensureBoardDataLoaded st p r) p \<notin> {Null, Undefined}
         \<and> trace (ensureBoardDataLoaded st p r) = trace st @ SelectBoardData p #
              (case r of
                 Failure c \<Rightarrow>
                   (if c \<noteq> ''PGRST116'' then [Warn ''Supabase board_data:''] else [])
               | Reply d \<Rightarrow> []))
    \<and> (boardDataCache st p = None \<and> r = Failure c \<longrightarrow>
         is_empty_array (heap (ensureBoardDataLoaded st p r))
           (loadTasks (ensureBoardDataLoaded st p r) p)
         \<and> is_empty_object (heap (ensureBoardDataLoaded st p r))
           (loadSettings (ensureBoardDataLoaded st p r) p)
         \<and> loadView (ensureBoardDataLoaded st p r) p = Str ''default''
         \<and> is_empty_array (heap (ensureBoardDataLoaded st p r))
           (loadCustomPalettes (ensureBoardDataLoaded st p r) p))
    \<and> (boardDataCache st p = None \<and> r = Reply d \<longrightarrow>
         (if json_truthy (data_tasks d)
          then JSON_stringify (heap (ensureBoardDataLoaded st p r))
                 (loadTasks (ensureBoardDataLoaded st p r) p) = Inr (Some (data_tasks d))
          else is_empty_array (heap (ensureBoardDataLoaded st p r))
                 (loadTasks (ensureBoardDataLoaded st p r) p))
         \<and> (if json_truthy (data_settings d)
          then JSON_stringify (heap (ensureBoardDataLoaded st p r))
                 (loadSettings (ensureBoardDataLoaded st p r) p) = Inr (Some (data_settings d))
          else is_empty_object (heap (ensureBoardDataLoaded st p r))
                 (loadSettings (ensureBoardDataLoaded st p r) p))
         \<and> (if json_truthy (data_view d)
          then JSON_stringify (heap (ensureBoardDataLoaded st p r))
                 (loadView (ensureBoardDataLoaded st p r) p) = Inr (Some (data_view d))
          else loadView (ensureBoardDataLoaded st p r) p = Str ''default'')
         \<and> (if json_truthy (data_custom_palettes d)
          then JSON_stringify (heap (ensureBoardDataLoaded st p r))
                 (loadCustomPalettes (ensureBoardDataLoaded st p r) p) =
                 Inr (Some (data_custom_palettes d))
          else is_empty_array (heap (ensureBoardDataLoaded st p r))
                 (loadCustomPalettes (ensureBoardDataLoaded st p r) p)))
    \<and> (boardDataCache st p = None \<and> r = Reply d \<and> array_or_null (data_tasks d)
        \<and> object_or_null (data_settings d) \<and> string_or_null (data_view d)
        \<and> array_or_null (data_custom_palettes d) \<longrightarrow>
         is_array (heap (ensureBoardDataLoaded st p r))
           (loadTasks (ensureBoardDataLoaded st p r) p)
         \<and> is_object (heap (ensureBoardDataLoaded st p r))
           (loadSettings (ensureBoardDataLoaded st p r) p)
         \<and> is_string (loadView (ensureBoardDataLoaded st p r) p)
         \<and> is_array (heap (ensureBoardDataLoaded st p r))
           (loadCustomPalettes (ensureBoardDataLoaded st p r) p))"
proof -
  let ?st' = "ensureBoardDataLoaded st p r"
  note en = assms(1,2)
  have populated: "boardDataCache ?st' p \<noteq> None"
    using en by (rule ensure_populates)
  have cached: "ensureBoardDataLoaded st p r = st" if "boardDataCache st p \<noteq> None"
    using that by (rule ensure_cached_noop)
  have tr: "trace ?st' = trace st @ SelectBoardData p #
      (case r of
         Failure c \<Rightarrow> (if c \<noteq> ''PGRST116'' then [Warn ''Supabase board_data:''] else [])
       | Reply d \<Rightarrow> [])"
    if "boardDataCache st p = None"
    using en that by (rule ensure_trace)
  have fail: "is_empty_array (heap ?st') (loadTasks ?st' p)
      \<and> is_empty_object (heap ?st') (loadSettings ?st' p)
      \<and> loadView ?st' p = Str ''default''
      \<and> is_empty_array (heap ?st') (loadCustomPalettes ?st' p)"
    if "boardDataCache st p = None" and "r = Failure c" for c
  proof -
    from ensure_failure_result [OF en that(1), of c] that(2)
    obtain row where "boardDataCache ?st' p = Some row"
      and "is_empty_array (heap ?st') (tasks row)"
      and "is_empty_object (heap ?st') (settings row)"
      and "view row = Str ''default''"
      and "is_empty_array (heap ?st') (custom_palettes row)"
      by auto
    with ensure_loaded_loads [OF en this(1)] show ?thesis
      by simp
  qed
  have reply: "truthy (loadTasks ?st' p) \<and> truthy (loadSettings ?st' p)
      \<and> truthy (loadView ?st' p) \<and> truthy (loadCustomPalettes ?st' p)
      \<and> (array_or_null (data_tasks d) \<longrightarrow> is_array (heap ?st') (loadTasks ?st' p))
      \<and> (object_or_null (data_settings d) \<longrightarrow> is_object (heap ?st') (loadSettings ?st' p))
      \<and> (string_or_null (data_view d) \<longrightarrow> is_string (loadView ?st' p))
      \<and> (array_or_null (data_custom_palettes d) \<longrightarrow>
            is_array (heap ?st') (loadCustomPalettes ?st' p))"
    if "boardDataCache st p = None" and "r = Reply d" for d
  proof -
    from ensure_reply_result [OF en that(1), of d] that(2)
    obtain row where row: "boardDataCache ?st' p = Some row"
      and "truthy (tasks row)" "truthy (settings row)" "truthy (view row)"
        "truthy (custom_palettes row)"
      and "array_or_null (data_tasks d) \<longrightarrow> is_array (heap ?st') (tasks row)"
      and "object_or_null (data_settings d) \<longrightarrow> is_object (heap ?st') (settings row)"
      and "string_or_null (data_view d) \<longrightarrow> is_string (view row)"
      and "array_or_null (data_custom_palettes d) \<longrightarrow>
            is_array (heap ?st') (custom_palettes row)"
      by auto
    with ensure_loaded_loads [OF en row] show ?thesis
      by simp
  qed
  have cols: "(if json_truthy (data_tasks d)
        then JSON_stringify (heap ?st') (loadTasks ?st' p) = Inr (Some (data_tasks d))
        else is_empty_array (heap ?st') (loadTasks ?st' p))
      \<and> (if json_truthy (data_settings d)
        then JSON_stringify (heap ?st') (loadSettings ?st' p) = Inr (Some (data_settings d))
        else is_empty_object (heap ?st') (loadSettings ?st' p))
      \<and> (if json_truthy (data_view d)
        then JSON_stringify (heap ?st') (loadView ?st' p) = Inr (Some (data_view d))
        else loadView ?st' p = Str ''default'')
      \<and> (if json_truthy (data_custom_palettes d)
        then JSON_stringify (heap ?st') (loadCustomPalettes ?st' p) =
               Inr (Some (data_custom_palettes d))
        else is_empty_array (heap ?st') (loadCustomPalettes ?st' p))"
    if "boardDataCache st p = None" and "r = Reply d" for d
  proof -
    from ensure_reply_columns [OF en that(1), of d] that(2)
    obtain row where row: "boardDataCache ?st' p = Some row"
      and "if json_truthy (data_tasks d)
        then JSON_stringify (heap ?st') (tasks row) = Inr (Some (data_tasks d))
        else is_empty_array (heap ?st') (tasks row)"
      and "if json_truthy (data_settings d)
        then JSON_stringify (heap ?st') (settings row) = Inr (Some (data_settings d))
        else is_empty_object (heap ?st') (settings row)"
      and "if json_truthy (data_view d)
        then JSON_stringify (heap ?st') (view row) = Inr (Some (data_view d))
        else view row = Str ''default''"
      and "if json_truthy (data_custom_palettes d)
        then JSON_stringify (heap ?st') (custom_palettes row) =
               Inr (Some (data_custom_palettes d))
        else is_empty_array (heap ?st') (custom_palettes row)"
      by auto
    with ensure_loaded_loads [OF en row] show ?thesis
      by simp
  qed
  have truthy_all: "truthy (loadTasks ?st' p) \<and> truthy (loadSettings ?st' p)
      \<and> truthy (loadView ?st' p) \<and> truthy (loadCustomPalettes ?st' p)"
    if n: "boardDataCache st p = None"
  proof (cases r)
    case (Reply d)
    with reply [OF n] show ?thesis by simp
  next
    case (Failure c)
    with fail [OF n] show ?thesis
      by (cases "loadTasks ?st' p"; cases "loadSettings ?st' p";
          cases "loadCustomPalettes ?st' p") simp_all
  qed
  have p2: "boardDataCache st p \<noteq> None \<longrightarrow> ensureBoardDataLoaded st p r = st"
    using cached by blast
  have p3: "boardDataCache st p = None \<longrightarrow>
         truthy (loadTasks ?st' p) \<and> truthy (loadSettings ?st' p)
         \<and> truthy (loadView ?st' p) \<and> truthy (loadCustomPalettes ?st' p)
         \<and> loadTasks ?st' p \<notin> {Null, Undefined}
         \<and> loadSettings ?st' p \<notin> {Null, Undefined}
         \<and> loadView ?st' p \<notin> {Null, Undefined}
         \<and> loadCustomPalettes ?st' p \<notin> {Null, Undefined}
         \<and> trace ?st' = trace st @ SelectBoardData p #
              (case r of
                 Failure c \<Rightarrow>
                   (if c \<noteq> ''PGRST116'' then [Warn ''Supabase board_data:''] else [])
               | Reply d \<Rightarrow> [])"
  proof
    assume n: "boardDataCache st p = None"
    from truthy_all [OF n] tr [OF n] show "truthy (loadTasks ?st' p)
         \<and> truthy (loadSettings ?st' p)
         \<and> truthy (loadView ?st' p) \<and> truthy (loadCustomPalettes ?st' p)
         \<and> loadTasks ?st' p \<notin> {Null, Undefined}
         \<and> loadSettings ?st' p \<notin> {Null, Undefined}
         \<and> loadView ?st' p \<notin> {Null, Undefined}
         \<and> loadCustomPalettes ?st' p \<notin> {Null, Undefined}
         \<and> trace ?st' = trace st @ SelectBoardData p #
              (case r of
                 Failure c \<Rightarrow>
                   (if c \<noteq> ''PGRST116'' then [Warn ''Supabase board_data:''] else [])
               | Reply d \<Rightarrow> [])"
      using truthy_defined [of "loadTasks ?st' p"] truthy_defined [of "loadSettings ?st' p"]
        truthy_defined [of "loadView ?st' p"] truthy_defined [of "loadCustomPalettes ?st' p"]
      by simp
  qed
  have p4: "boardDataCache st p = None \<and> r = Failure c \<longrightarrow>
         is_empty_array (heap ?st') (loadTasks ?st' p)
         \<and> is_empty_object (heap ?st') (loadSettings ?st' p)
         \<and> loadView ?st' p = Str ''default''
         \<and> is_empty_array (heap ?st') (loadCustomPalettes ?st' p)"
    using fail by blast
  have p5: "boardDataCache st p = None \<and> r = Reply d \<longrightarrow>
         (if json_truthy (data_tasks d)
          then JSON_stringify (heap ?st') (loadTasks ?st' p) = Inr (Some (data_tasks d))
          else is_empty_array (heap ?st') (loadTasks ?st' p))
         \<and> (if json_truthy (data_settings d)
          then JSON_stringify (heap ?st') (loadSettings ?st' p) = Inr (Some (data_settings d))
          else is_empty_object (heap ?st') (loadSettings ?st' p))
         \<and> (if json_truthy (data_view d)
          then JSON_stringify (heap ?st') (loadView ?st' p) = Inr (Some (data_view d))
          else loadView ?st' p = Str ''default'')
         \<and> (if json_truthy (data_custom_palettes d)
          then JSON_stringify (heap ?st') (loadCustomPalettes ?st' p) =
                 Inr (Some (data_custom_palettes d))
          else is_empty_array (heap ?st') (loadCustomPalettes ?st' p))"
    using cols [of d] by blast
  have p6: "boardDataCache st p = None \<and> r = Reply d \<and> array_or_null (data_tasks d)
        \<and> object_or_null (data_settings d) \<and> string_or_null (data_view d)
        \<and> array_or_null (data_custom_palettes d) \<longrightarrow>
         is_array (heap ?st') (loadTasks ?st' p)
         \<and> is_object (heap ?st') (loadSettings ?st' p)
         \<and> is_string (loadView ?st' p)
         \<and> is_array (heap ?st') (loadCustomPalettes ?st' p)"
    using reply [of d] by blast
  from populated p2 p3 p4 p5 p6 show ?thesis
    by (intro conjI)
qed

theorem ensure_loaded_reads_witness:
  "boardDataCache (ensureBoardDataLoaded enabled_state ''p1'' (Failure ''PGRST116'')) ''p1''
     \<noteq> None
   \<and> is_empty_array (heap (ensureBoardDataLoaded enabled_state ''p1'' (Failure ''PGRST116'')))
       (loadTasks (ensureBoardDataLoaded enabled_state ''p1'' (Failure ''PGRST116'')) ''p1'')
   \<and> loadView (ensureBoardDataLoaded enabled_state ''p1'' (Failure ''PGRST116'')) ''p1''
       = Str ''default''
   \<and> trace (ensureBoardDataLoaded enabled_state ''p1'' (Failure ''PGRST116'')) =
       [SelectBoardData ''p1'']
   \<and> trace (ensureBoardDataLoaded enabled_state ''p1'' (Failure ''500'')) =
       [SelectBoardData ''p1'', Warn ''Supabase board_data:'']
   \<and> truthy (loadSettings (ensureBoardDataLoaded enabled_state ''p1'' (Reply typical_row)) ''p1'')
   \<and> JSON_stringify (heap (ensureBoardDataLoaded enabled_state ''p1'' (Reply typical_row)))
       (loadTasks (ensureBoardDataLoaded enabled_state ''p1'' (Reply typical_row)) ''p1'') =
       Inr (Some (JArr [JObj [(''task'', JStr ''A'')]]))
   \<and> is_empty_object (heap (ensureBoardDataLoaded enabled_state ''p1'' (Reply typical_row)))
       (loadSettings (ensureBoardDataLoaded enabled_state ''p1'' (Reply typical_row)) ''p1'')
   \<and> loadView (ensureBoardDataLoaded enabled_state ''p1'' (Reply typical_row)) ''p1'' =
       Str ''default''
   \<and> JSON_stringify (heap (ensureBoardDataLoaded enabled_state ''p1'' (Reply typical_row)))
       (loadCustomPalettes (ensureBoardDataLoaded enabled_state ''p1'' (Reply typical_row)) ''p1'')
       = Inr (Some (JArr []))
   \<and> is_array (heap (ensureBoardDataLoaded enabled_state ''p1'' (Reply typical_row)))
       (loadTasks (ensureBoardDataLoaded enabled_state ''p1'' (Reply typical_row)) ''p1'')
   \<and> is_object (heap (ensureBoardDataLoaded enabled_state ''p1'' (Reply typical_row)))
       (loadSettings (ensureBoardDataLoaded enabled_state ''p1'' (Reply typical_row)) ''p1'')
   \<and> is_string (loadView (ensureBoardDataLoaded enabled_state ''p1'' (Reply typical_row)) ''p1'')
   \<and> is_array (heap (ensureBoardDataLoaded enabled_state ''p1'' (Reply typical_row)))
       (loadCustomPalettes (ensureBoardDataLoaded enabled_state ''p1'' (Reply typical_row)) ''p1'')
   \<and> ensureBoardDataLoaded loaded_state ''p1'' (Reply number_row) = loaded_state"
proof -
  have h: "supabase enabled_state \<noteq> None" "''p1'' \<noteq> []" "''p1'' \<notin> set reserved_names"
    by (simp_all add: enabled_state_def reserved_names_def)
  have n: "boardDataCache enabled_state ''p1'' = None" "trace enabled_state = []"
    by (simp_all add: enabled_state_def)
  have g: "array_or_null (data_tasks typical_row)" "object_or_null (data_settings typical_row)"
    "string_or_null (data_view typical_row)" "array_or_null (data_custom_palettes typical_row)"
    "json_truthy (data_tasks typical_row)" "\<not> json_truthy (data_settings typical_row)"
    "\<not> json_truthy (data_view typical_row)" "json_truthy (data_custom_palettes typical_row)"
    "data_tasks typical_row = JArr [JObj [(''task'', JStr ''A'')]]"
    "data_custom_palettes typical_row = JArr []"
    by (simp_all add: typical_row_def)
  have h': "supabase loaded_state \<noteq> None"
    by (simp add: loaded_state_def ensure_supabase enabled_state_def)
  have c: "boardDataCache loaded_state ''p1'' \<noteq> None"
    unfolding loaded_state_def using h(1,2) by (rule ensure_populates)
  from ensure_loaded_reads [OF h, of "Failure ''PGRST116''" "''PGRST116''" typical_row]
    ensure_loaded_reads [OF h, of "Failure ''500''" "''500''" typical_row]
    ensure_loaded_reads [OF h, of "Reply typical_row" "''PGRST116''" typical_row]
    ensure_loaded_reads [OF h' h(2,3), of "Reply number_row" "''PGRST116''" typical_row] n g c
  show ?thesis
    by simp
qed

text \<open>
  The claim as it was stated fails in two ways. A document that is already cached is
  returned as it is: after \<^verbatim>\<open>saveTasks("p1", null)\<close> the tasks read is \<^verbatim>\<open>null\<close>, and
  \<^verbatim>\<open>ensureBoardDataLoaded("p1")\<close> does not change that. And a truthy column is taken as it
  comes: when the row's \<^verbatim>\<open>tasks\<close> column holds the number 5, the tasks read is 5, not a
  list.
\<close>

theorem ensure_loaded_reads_counterexample:
  "supabase enabled_state \<noteq> None
   \<and> loadTasks (ensureBoardDataLoaded (saveTasks enabled_state ''p1'' Null) ''p1''
        (Failure ''PGRST116'')) ''p1'' = Null
   \<and> loadTasks (ensureBoardDataLoaded enabled_state ''p1'' (Reply number_row)) ''p1'' = Num 5
   \<and> \<not> is_array (heap (ensureBoardDataLoaded enabled_state ''p1'' (Reply number_row)))
         (loadTasks (ensureBoardDataLoaded enabled_state ''p1'' (Reply number_row)) ''p1'')"
  by (simp add: enabled_state_def saveTasks_def isCloudEnabled_def ensureBoardDataRow_def
      default_row_def alloc_def persistBoardData_def emit_def ensureBoardDataLoaded_def
      loadTasks_def number_row_def parse_row_def or_new_def)

subsection \<open>Deleting a board\<close>

text \<open>
  C9. In an enabled session and for a non-empty id \<open>x\<close> that is none of \<open>reserved_names\<close>,
  after \<^verbatim>\<open>deleteBoard(x)\<close> the project-list read holds no entry with id \<open>x\<close>, the board
  cache has no document for \<open>x\<close> and each of the four reads for \<open>x\<close> returns \<^verbatim>\<open>null\<close>. When the backend is disabled or the
  id is empty, \<^verbatim>\<open>deleteBoard\<close> returns the state it was given.
\<close>

theorem delete_removes:
  "(supabase st \<noteq> None \<and> x \<noteq> [] \<and> x \<notin> set reserved_names \<longrightarrow>
      loadProjectsList (deleteBoard st x) =
        Some (filter (\<lambda>p. proj_id p \<noteq> x) (projectsListCache st))
      \<and> x \<notin> proj_id ` set (filter (\<lambda>p. proj_id p \<noteq> x) (projectsListCache st))
      \<and> boardDataCache (deleteBoard st x) x = None
      \<and> loadTasks (deleteBoard st x) x = Null
      \<and> loadSettings (deleteBoard st x) x = Null
      \<and> loadView (deleteBoard st x) x = Null
      \<and> loadCustomPalettes (deleteBoard st x) x = Null)
   \<and> (supabase st = None \<or> x = [] \<longrightarrow> deleteBoard st x = st)"
  by (auto simp add: deleteBoard_def Let_def emit_def loadProjectsList_def isCloudEnabled_def
      loadTasks_def loadSettings_def loadView_def loadCustomPalettes_def)

theorem delete_removes_witness:
  "loadProjectsList (deleteBoard sample_state ''x'') =
       Some [\<lparr>proj_id = ''y'', proj_name = ''Other'', createdAt = 2\<rparr>]
   \<and> boardDataCache (deleteBoard sample_state ''x'') ''x'' = None
   \<and> loadTasks (deleteBoard sample_state ''x'') ''x'' = Null
   \<and> loadSettings (deleteBoard sample_state ''x'') ''x'' = Null
   \<and> loadView (deleteBoard sample_state ''x'') ''x'' = Null
   \<and> loadCustomPalettes (deleteBoard sample_state ''x'') ''x'' = Null
   \<and> deleteBoard sample_state [] = sample_state
   \<and> deleteBoard disabled_state ''x'' = disabled_state"
proof -
  have h1: "supabase sample_state \<noteq> None \<and> ''x'' \<noteq> [] \<and> ''x'' \<notin> set reserved_names"
    by (simp add: sample_state_def reserved_names_def)
  have h2: "supabase disabled_state = None"
    by (simp add: disabled_state_def)
  have l: "filter (\<lambda>p. proj_id p \<noteq> ''x'') (projectsListCache sample_state) =
      [\<lparr>proj_id = ''y'', proj_name = ''Other'', createdAt = 2\<rparr>]"
    by (simp add: sample_state_def)
  from delete_removes [of sample_state "''x''"] delete_removes [of sample_state "[]"]
    delete_removes [of disabled_state "''x''"] h1 h2 l
  show ?thesis by simp
qed

subsection \<open>Creating a board\<close>

text \<open>
  C5. \<^verbatim>\<open>createBoard\<close> returns \<^verbatim>\<open>null\<close> and leaves the state as it is when the backend is
  disabled, and returns \<^verbatim>\<open>null\<close> when \<^verbatim>\<open>getSession\<close> yields no session. When the insert
  into \<^verbatim>\<open>boards\<close> fails (an error, or no row), it returns \<^verbatim>\<open>null\<close>, the project list, the
  board cache and the heap are as before, and the trace holds no further insert into
  \<^verbatim>\<open>board_data\<close>.
\<close>

theorem create_failure:
  "(supabase st = None \<longrightarrow> createBoard st n sess ins now = (st, None))
   \<and> snd (createBoard st n None ins now) = None
   \<and> (ins = Failure c \<or> ins = Reply None \<longrightarrow>
        snd (createBoard st n sess ins now) = None
        \<and> projectsListCache (fst (createBoard st n sess ins now)) = projectsListCache st
        \<and> boardDataCache (fst (createBoard st n sess ins now)) = boardDataCache st
        \<and> heap (fst (createBoard st n sess ins now)) = heap st
        \<and> doc_inserts (fst (createBoard st n sess ins now)) = doc_inserts st)"
  by (auto simp add: createBoard_def Let_def emit_def doc_inserts_def split: option.splits)

theorem create_failure_witness:
  "createBoard disabled_state ''Launch Plan'' (Some (Session ''u1'')) (Reply (Some ''x'')) 5
     = (disabled_state, None)
   \<and> snd (createBoard sample_state ''Launch Plan'' None (Reply (Some ''z'')) 5) = None
   \<and> snd (createBoard sample_state ''Launch Plan'' (Some (Session ''u1'')) (Failure ''23505'') 5) = None
   \<and> projectsListCache (fst (createBoard sample_state ''Launch Plan'' (Some (Session ''u1''))
        (Failure ''23505'') 5)) = projectsListCache sample_state
   \<and> boardDataCache (fst (createBoard sample_state ''Launch Plan'' (Some (Session ''u1''))
        (Failure ''23505'') 5)) = boardDataCache sample_state
   \<and> heap (fst (createBoard sample_state ''Launch Plan'' (Some (Session ''u1''))
        (Failure ''23505'') 5)) = heap sample_state
   \<and> doc_inserts (fst (createBoard sample_state ''Launch Plan'' (Some (Session ''u1''))
        (Failure ''23505'') 5)) = doc_inserts sample_state"
proof -
  have h: "supabase disabled_state = None"
    by (simp add: disabled_state_def)
  from create_failure [of disabled_state "''Launch Plan''" "Some (Session ''u1'')" "Reply (Some ''x'')" 5 "''c''"]
    create_failure [of sample_state "''Launch Plan''" "Some (Session ''u1'')" "Failure ''23505''" 5 "''23505''"]
    create_failure [of sample_state "''Launch Plan''" "Some (Session ''u1'')" "Reply (Some ''z'')" 5 "''c''"]
    h
  show ?thesis by simp
qed

subsection \<open>Signing out\<close>

text \<open>
  C3. After \<^verbatim>\<open>signOut()\<close>, and after the auth handler has processed a \<^verbatim>\<open>SIGNED_OUT\<close> event
  (whose session is \<^verbatim>\<open>null\<close>), the project-list read is the empty list in an enabled
  session (\<^verbatim>\<open>null\<close> in a disabled one), so it holds no entry of the identity that was signed
  in, and each of the four board reads returns \<^verbatim>\<open>null\<close> for every project id that is none
  of \<open>reserved_names\<close>. The session callback, when one is registered, is called with \<^verbatim>\<open>null\<close>
  as the last step, and finds both caches empty.
\<close>

theorem sign_out_clears:
  assumes "p \<notin> set reserved_names"
  shows "loadProjectsList (signOut st) = (if supabase st = None then None else Some [])
   \<and> loadTasks (signOut st) p = Null
   \<and> loadSettings (signOut st) p = Null
   \<and> loadView (signOut st) p = Null
   \<and> loadCustomPalettes (signOut st) p = Null
   \<and> trace (signOut st) = trace st @
       (if supabase st = None then []
        else AuthSignOut # (if authCallback st then [Callback None [] Map.empty] else []))
   \<and> loadProjectsList (onAuthStateChange st ''SIGNED_OUT'' None cur r) =
        (if supabase st = None then None else Some [])
   \<and> loadTasks (onAuthStateChange st ''SIGNED_OUT'' None cur r) p = Null
   \<and> loadSettings (onAuthStateChange st ''SIGNED_OUT'' None cur r) p = Null
   \<and> loadView (onAuthStateChange st ''SIGNED_OUT'' None cur r) p = Null
   \<and> loadCustomPalettes (onAuthStateChange st ''SIGNED_OUT'' None cur r) p = Null
   \<and> trace (onAuthStateChange st ''SIGNED_OUT'' None cur r) = trace st @
       (if authCallback st then [Callback None [] Map.empty] else [])"
  by (simp add: signOut_def onAuthStateChange_def notify_def Let_def emit_def
      loadProjectsList_def isCloudEnabled_def loadTasks_def loadSettings_def loadView_def
      loadCustomPalettes_def)

theorem sign_out_clears_witness:
  "loadProjectsList (signOut sample_state) = Some []
   \<and> loadTasks (signOut sample_state) ''x'' = Null
   \<and> loadSettings (signOut sample_state) ''x'' = Null
   \<and> loadView (signOut sample_state) ''x'' = Null
   \<and> loadCustomPalettes (signOut sample_state) ''x'' = Null
   \<and> trace (signOut sample_state) = [AuthSignOut, Callback None [] Map.empty]
   \<and> loadProjectsList (onAuthStateChange sample_state ''SIGNED_OUT'' None None (Reply None)) = Some []
   \<and> loadTasks (onAuthStateChange sample_state ''SIGNED_OUT'' None None (Reply None)) ''x'' = Null
   \<and> trace (onAuthStateChange sample_state ''SIGNED_OUT'' None None (Reply None)) =
        [Callback None [] Map.empty]"
proof -
  have x: "''x'' \<notin> set reserved_names"
    by (simp add: reserved_names_def)
  have h: "supabase sample_state \<noteq> None" "authCallback sample_state" "trace sample_state = []"
    by (simp_all add: sample_state_def)
  from sign_out_clears [OF x, of sample_state None "Reply None"] h
  show ?thesis by simp
qed

subsection \<open>Signing in\<close>

lemma ensureBoardsListLoaded_result:
  assumes "supabase st \<noteq> None"
  shows "ensureBoardsListLoaded st current r =
    st\<lparr>trace := trace st @ reload_events current r,
       projectsListCache := reloaded_list (projectsListCache st) current r\<rparr>"
  using assms
  by (simp add: ensureBoardsListLoaded_def reload_events_def reloaded_list_def emit_def Let_def
      split: option.splits reply.splits del: not_None_eq)

text \<open>
  C4 (as amended). When the auth handler processes an \<^verbatim>\<open>INITIAL_SESSION\<close>, \<^verbatim>\<open>SIGNED_IN\<close> or
  \<^verbatim>\<open>TOKEN_REFRESHED\<close> event that carries a session, in an enabled session with a registered
  callback, \<^verbatim>\<open>ensureBoardsListLoaded\<close> runs to its end before the callback is called, and the
  callback is the last event. When \<^verbatim>\<open>getSession\<close> yields a session and the select of the
  boards succeeds, the callback finds the cache replaced by the rows of the answer. When
  the select fails, or \<^verbatim>\<open>getSession\<close> yields no session, the callback is called all the
  same and finds the project list as it was before the event.
\<close>

theorem signed_in_reload_then_callback:
  assumes "supabase st \<noteq> None" and "authCallback st"
    and "event = ''INITIAL_SESSION'' \<or> event = ''SIGNED_IN'' \<or> event = ''TOKEN_REFRESHED''"
  shows "trace (onAuthStateChange st event (Some s) current r) =
      trace st @ reload_events current r @
        [Callback (Some s) (reloaded_list (projectsListCache st) current r) (boardDataCache st)]
    \<and> projectsListCache (onAuthStateChange st event (Some s) current r) =
        reloaded_list (projectsListCache st) current r
    \<and> reloaded_list (projectsListCache st) (Some u) (Reply (Some rows)) = map project_of_row rows
    \<and> reloaded_list (projectsListCache st) (Some u) (Failure c) = projectsListCache st
    \<and> reloaded_list (projectsListCache st) None r = projectsListCache st"
proof -
  have "onAuthStateChange st event (Some s) current r =
      notify (ensureBoardsListLoaded st current r) (Some s)"
    using assms(3) by (auto simp add: onAuthStateChange_def)
  then show ?thesis
    using assms(2)
    by (simp add: ensureBoardsListLoaded_result [OF assms(1)] notify_def emit_def
        reloaded_list_def)
qed

theorem signed_in_reload_then_callback_witness:
  "trace (onAuthStateChange sample_state ''SIGNED_IN'' (Some (Session ''u2''))
       (Some (Session ''u2''))
       (Reply (Some [\<lparr>row_id = ''z'', row_name = [], row_created_at = 7\<rparr>]))) =
     [GetSession, SelectBoards ''u2'',
      Callback (Some (Session ''u2''))
        [\<lparr>proj_id = ''z'', proj_name = ''Untitled project'', createdAt = 7\<rparr>]
        (boardDataCache sample_state)]
   \<and> projectsListCache (onAuthStateChange sample_state ''SIGNED_IN'' (Some (Session ''u2''))
       (Some (Session ''u2''))
       (Reply (Some [\<lparr>row_id = ''z'', row_name = [], row_created_at = 7\<rparr>]))) =
     [\<lparr>proj_id = ''z'', proj_name = ''Untitled project'', createdAt = 7\<rparr>]"
proof -
  have h: "supabase sample_state \<noteq> None" "authCallback sample_state"
    "''SIGNED_IN'' = ''INITIAL_SESSION'' \<or> ''SIGNED_IN'' = ''SIGNED_IN''
      \<or> ''SIGNED_IN'' = ''TOKEN_REFRESHED''"
    by (simp_all add: sample_state_def)
  have t: "trace sample_state = []"
    by (simp add: sample_state_def)
  from signed_in_reload_then_callback [OF h, of "Session ''u2''" "Some (Session ''u2'')"
      "Reply (Some [\<lparr>row_id = ''z'', row_name = [], row_created_at = 7\<rparr>])"
      "Session ''u2''" "[\<lparr>row_id = ''z'', row_name = [], row_created_at = 7\<rparr>]" "''c''"]
  show ?thesis
    by (simp add: t reload_events_def reloaded_list_def project_of_row_def name_or_untitled_def)
qed

text \<open>
  The claim as it was stated fails when the select of the boards fails: the callback is
  called with the session of the new user while the cache still holds the list that was
  there before.
\<close>

theorem signed_in_stale_list_counterexample:
  "trace (onAuthStateChange sample_state ''SIGNED_IN'' (Some (Session ''u2''))
       (Some (Session ''u2'')) (Failure ''500'')) =
     [GetSession, SelectBoards ''u2'', Warn ''Supabase boards list:'',
      Callback (Some (Session ''u2''))
        [\<lparr>proj_id = ''x'', proj_name = ''Launch Plan'', createdAt = 1\<rparr>,
         \<lparr>proj_id = ''y'', proj_name = ''Other'', createdAt = 2\<rparr>]
        (boardDataCache sample_state)]"
  by (simp add: onAuthStateChange_def ensureBoardsListLoaded_def notify_def emit_def
      sample_state_def)

subsection \<open>Duplicating a board\<close>











end
